theory Spec2Isabelle
  imports Main "HOL-Library.Word"
begin

unbundle bit_operations_syntax

section \<open>Type system\<close>

text \<open>
  The base types of the node language (\<^verbatim>\<open>BVM_FLOAT\<close>, \<^verbatim>\<open>BVM_FLOAT3\<close>, ...).
\<close>

datatype BVMType = BVM_FLOAT | BVM_FLOAT3 | BVM_FLOAT4 | BVM_INT | BVM_MATRIX44

text \<open>
  A \<^verbatim>\<open>TypeSpec\<close> as the compiler reads it: its base type and the answers of its two
  methods \<^verbatim>\<open>is_aggregate()\<close> and \<^verbatim>\<open>is_structure()\<close>. The predicate
  \<^verbatim>\<open>bvm_type_has_dual_value\<close> is declared outside the compiler source; every function
  that calls it takes it as the parameter \<open>has_dual\<close>.
\<close>

record TypeSpec =
  base_type :: BVMType
  is_aggregate :: bool
  is_structure :: bool

subsection \<open>Argument passing\<close>

text \<open>
  \<^verbatim>\<open>LLVMTextureCompiler::use_argument_pointer(typespec, use_dual)\<close>: the three branches
  in the order of the source; \<open>True\<close> is pass by reference, \<open>False\<close> pass by value.
\<close>

definition use_argument_pointer :: "(TypeSpec \<Rightarrow> bool) \<Rightarrow> TypeSpec \<Rightarrow> bool \<Rightarrow> bool" where
  "use_argument_pointer has_dual typespec use_dual =
     (if use_dual \<and> has_dual typespec then True
      else if is_aggregate typespec \<or> is_structure typespec then True
      else False)"

text \<open>
  \<^verbatim>\<open>LLVMTextureCompiler::use_elementary_argument_pointer(typespec)\<close>.
\<close>

definition use_elementary_argument_pointer :: "TypeSpec \<Rightarrow> bool" where
  "use_elementary_argument_pointer typespec =
     (if is_aggregate typespec \<or> is_structure typespec then True else False)"

section \<open>Node types\<close>

text \<open>
  \<^verbatim>\<open>NodeOutput\<close>, \<^verbatim>\<open>NodeInput\<close> and \<^verbatim>\<open>NodeType\<close>, with the fields the compiler
  reads: the \<^verbatim>\<open>typedesc.get_typespec()\<close> of a socket, the \<^verbatim>\<open>value_type\<close> of an
  input, and the ordered inputs and outputs of a node type.
\<close>

datatype InputValueType = INPUT_CONSTANT | INPUT_EXPRESSION | INPUT_VARIABLE

record NodeOutput =
  output_name :: string
  output_typespec :: TypeSpec

record NodeInput =
  input_name :: string
  input_typespec :: TypeSpec
  value_type :: InputValueType

record NodeType =
  name :: string
  outputs :: "NodeOutput list"
  inputs :: "NodeInput list"

definition num_outputs :: "NodeType \<Rightarrow> nat" where
  "num_outputs nodetype = length (outputs nodetype)"

definition num_inputs :: "NodeType \<Rightarrow> nat" where
  "num_inputs nodetype = length (inputs nodetype)"

section \<open>The emitted code\<close>

text \<open>
  The part of the LLVM IR that the two wrapper generators build. An \<open>llvm_value\<close> is
  what a \<^verbatim>\<open>llvm::Value*\<close> of the generators can be: a formal argument of the function
  under construction (by its position in \<^verbatim>\<open>func->arg_begin()\<close> order), the constant
  \<^verbatim>\<open>bvm_make_zero(context(), typespec)\<close>, a 32-bit integer constant, or the result of
  a \<^verbatim>\<open>CreateLoad\<close>. Instructions and terminators are named after the
  \<^verbatim>\<open>IRBuilder\<close> calls that append them.
\<close>

datatype llvm_value =
    Arg nat
  | Zero TypeSpec
  | ConstantInt "32 word"
  | Loaded nat

datatype instr =
    CreateCall string "llvm_value list"
  | CreateStore llvm_value llvm_value
  | CreateLoad nat llvm_value

datatype label = L_entry | L_var0 | L_var1 | L_end

datatype terminator =
    CreateRetVoid
  | CreateBr label
  | CreateSwitch llvm_value label "(32 word \<times> label) list"

record basic_block =
  block_body :: "instr list"
  block_end :: terminator

datatype compile_error = AssertionFailed | IndexOutOfRange | NullDereference

text \<open>
  What a generator leaves in the module: nothing (\<open>NotDeclared\<close>, the early
  \<^verbatim>\<open>return\<close> when \<^verbatim>\<open>declare_node_function\<close> gave \<^verbatim>\<open>NULL\<close>), or the function it
  built. Undefined behaviour of the generator itself (a failed assertion, a vector read
  out of range, a null pointer dereference) is the \<open>Inl\<close> branch of the result.
\<close>

datatype 'f emitted = NotDeclared | Defined 'f

subsection \<open>The dual wrapper of a node type\<close>

text \<open>
  The three argument vectors of \<^verbatim>\<open>define_dual_function_wrapper\<close> together with the
  argument iterator \<^verbatim>\<open>arg_it\<close> (the position of the next formal argument).
\<close>

record call_args =
  arg_it :: nat
  call_args_value :: "llvm_value list"
  call_args_dx :: "llvm_value list"
  call_args_dy :: "llvm_value list"

text \<open>The body of the loop over the outputs, for one output.\<close>

definition output_arguments :: "(TypeSpec \<Rightarrow> bool) \<Rightarrow> call_args \<Rightarrow> NodeOutput \<Rightarrow> call_args" where
  "output_arguments has_dual a output =
     (let n = arg_it a in
      if has_dual (output_typespec output) then
        a\<lparr>arg_it := n + 3,
          call_args_value := call_args_value a @ [Arg n],
          call_args_dx := call_args_dx a @ [Arg (n + 1)],
          call_args_dy := call_args_dy a @ [Arg (n + 2)]\<rparr>
      else
        a\<lparr>arg_it := n + 1,
          call_args_value := call_args_value a @ [Arg n]\<rparr>)"

text \<open>
  The body of the loop over the inputs, for one input: a derivative function takes the
  input value as well as its derivative.
\<close>

definition input_arguments :: "(TypeSpec \<Rightarrow> bool) \<Rightarrow> call_args \<Rightarrow> NodeInput \<Rightarrow> call_args" where
  "input_arguments has_dual a input =
     (let n = arg_it a in
      if value_type input \<noteq> INPUT_CONSTANT \<and> has_dual (input_typespec input) then
        a\<lparr>arg_it := n + 3,
          call_args_value := call_args_value a @ [Arg n],
          call_args_dx := call_args_dx a @ [Arg n, Arg (n + 1)],
          call_args_dy := call_args_dy a @ [Arg n, Arg (n + 2)]\<rparr>
      else
        a\<lparr>arg_it := n + 1,
          call_args_value := call_args_value a @ [Arg n],
          call_args_dx := call_args_dx a @ [Arg n],
          call_args_dy := call_args_dy a @ [Arg n]\<rparr>)"

definition collect_arguments :: "(TypeSpec \<Rightarrow> bool) \<Rightarrow> NodeType \<Rightarrow> call_args" where
  "collect_arguments has_dual nodetype =
     foldl (input_arguments has_dual)
       (foldl (output_arguments has_dual)
          \<lparr>arg_it = 0, call_args_value = [], call_args_dx = [], call_args_dy = []\<rparr>
          (outputs nodetype))
       (inputs nodetype)"

text \<open>
  The loop that zeroes the derivatives when there is no derivative function: for the
  output at index \<open>i\<close>, if it has a dual value, a zero is stored through
  \<^verbatim>\<open>call_args_dx[i]\<close> and through \<^verbatim>\<open>call_args_dy[i]\<close>. The vectors are read with
  \<^verbatim>\<open>operator[]\<close>, so an index beyond their size is undefined behaviour.
\<close>

fun zero_derivatives ::
  "(TypeSpec \<Rightarrow> bool) \<Rightarrow> call_args \<Rightarrow> NodeOutput list \<Rightarrow> nat \<Rightarrow> compile_error + instr list" where
  "zero_derivatives has_dual a [] i = Inr []"
| "zero_derivatives has_dual a (output # rest) i =
     (let typespec = output_typespec output in
      if has_dual typespec then
        (if i < length (call_args_dx a) \<and> i < length (call_args_dy a) then
           (case zero_derivatives has_dual a rest (i + 1) of
              Inl e \<Rightarrow> Inl e
            | Inr stores \<Rightarrow>
                Inr (CreateStore (Zero typespec) (call_args_dx a ! i) #
                     CreateStore (Zero typespec) (call_args_dy a ! i) # stores))
         else Inl IndexOutOfRange)
      else zero_derivatives has_dual a rest (i + 1))"

text \<open>
  \<^verbatim>\<open>LLVMTextureCompiler::define_dual_function_wrapper\<close>. The parameters stand for
  what the function looks up in the module: \<open>value_func\<close> and \<open>deriv_func\<close> are the
  results of \<^verbatim>\<open>llvm_find_external_function\<close> for the value and the derivative
  function name (\<open>None\<close> is \<^verbatim>\<open>NULL\<close>), and \<open>declared\<close> tells whether
  \<^verbatim>\<open>declare_node_function\<close> returned a function. The wrapper has a single block.
  The assertion that the loops have used up all formal arguments compares with the
  signature that \<^verbatim>\<open>declare_node_function\<close> built, and is left out.
\<close>

definition define_dual_function_wrapper ::
  "(TypeSpec \<Rightarrow> bool) \<Rightarrow> string option \<Rightarrow> string option \<Rightarrow> bool \<Rightarrow> NodeType
     \<Rightarrow> compile_error + basic_block emitted" where
  "define_dual_function_wrapper has_dual value_func deriv_func declared nodetype =
     (case value_func of
        None \<Rightarrow> Inl AssertionFailed
      | Some vf \<Rightarrow>
          if \<not> declared then Inr NotDeclared
          else
            (let a = collect_arguments has_dual nodetype in
             case deriv_func of
               Some df \<Rightarrow>
                 Inr (Defined
                   \<lparr>block_body = [CreateCall vf (call_args_value a),
                            CreateCall df (call_args_dx a),
                            CreateCall df (call_args_dy a)],
                    block_end = CreateRetVoid\<rparr>)
             | None \<Rightarrow>
                 (case zero_derivatives has_dual a (outputs nodetype) 0 of
                    Inl e \<Rightarrow> Inl e
                  | Inr stores \<Rightarrow>
                      Inr (Defined
                        \<lparr>block_body = CreateCall vf (call_args_value a) # stores,
                         block_end = CreateRetVoid\<rparr>))))"

subsection \<open>The get-derivative node\<close>

text \<open>
  \<^verbatim>\<open>LLVMTextureCompiler::define_get_derivative\<close>. The formal arguments are taken in
  the order of the source: \<^verbatim>\<open>out_val\<close>, \<^verbatim>\<open>out_dx\<close>, \<^verbatim>\<open>out_dy\<close>, \<^verbatim>\<open>var\<close>,
  \<^verbatim>\<open>in_val\<close>, \<^verbatim>\<open>in_dx\<close>, \<^verbatim>\<open>in_dy\<close>. The type is that of input 1 of the node
  type; \<^verbatim>\<open>find_input(1)\<close> is dereferenced unchecked. The function has the four blocks
  \<^verbatim>\<open>entry\<close>, \<^verbatim>\<open>var0\<close>, \<^verbatim>\<open>var1\<close> and \<^verbatim>\<open>end\<close>.
\<close>

definition select_derivative :: "(TypeSpec \<Rightarrow> bool) \<Rightarrow> TypeSpec \<Rightarrow> nat \<Rightarrow> llvm_value \<Rightarrow> llvm_value \<Rightarrow> basic_block" where
  "select_derivative has_dual typespec r data out_val =
     (if use_argument_pointer has_dual typespec False then
        \<lparr>block_body = [CreateLoad r data, CreateStore (Loaded r) out_val],
         block_end = CreateBr L_end\<rparr>
      else
        \<lparr>block_body = [CreateStore data out_val],
         block_end = CreateBr L_end\<rparr>)"

definition define_get_derivative ::
  "(TypeSpec \<Rightarrow> bool) \<Rightarrow> bool \<Rightarrow> NodeType \<Rightarrow> compile_error + (label \<Rightarrow> basic_block) emitted" where
  "define_get_derivative has_dual declared nodetype =
     (if \<not> declared then Inr NotDeclared
      else if \<not> 1 < num_inputs nodetype then Inl NullDereference
      else
        (let typespec = input_typespec (inputs nodetype ! 1);
             idx0 = (0 :: 32 word);
             idx1 = (1 :: 32 word);
             out_val = Arg 0; out_dx = Arg 1; out_dy = Arg 2;
             var = Arg 3;
             in_dx = Arg 5; in_dy = Arg 6;
             zero = Zero typespec
         in Inr (Defined (\<lambda>l. case l of
              L_entry \<Rightarrow>
                \<lparr>block_body = [CreateStore zero out_dx, CreateStore zero out_dy],
                 block_end = CreateSwitch var L_end [(idx0, L_var0), (idx1, L_var1)]\<rparr>
            | L_var0 \<Rightarrow> select_derivative has_dual typespec 0 in_dx out_val
            | L_var1 \<Rightarrow> select_derivative has_dual typespec 1 in_dy out_val
            | L_end \<Rightarrow> \<lparr>block_body = [], block_end = CreateRetVoid\<rparr>))))"

subsection \<open>Running the emitted code\<close>

text \<open>
  The meaning of the emitted instructions. A run-time value is a pointer, a 32-bit integer
  or a datum of the socket's type \<open>'v\<close>; memory maps addresses to data. \<open>zero\<close> gives
  the datum that \<^verbatim>\<open>bvm_make_zero\<close> builds for a type, and \<open>ext\<close> the effect of an
  external function on memory. A step that LLVM gives no meaning (a store through a
  value that is no pointer, a switch on a value that is no integer, a missing argument)
  is \<open>None\<close>.
\<close>

datatype 'v rtval = Pointer nat | Int32 "32 word" | Data 'v

record 'v frame =
  memory :: "nat \<Rightarrow> 'v"
  loaded :: "nat \<rightharpoonup> 'v rtval"

fun eval_value :: "(TypeSpec \<Rightarrow> 'v) \<Rightarrow> 'v rtval list \<Rightarrow> 'v frame \<Rightarrow> llvm_value \<Rightarrow> 'v rtval option" where
  "eval_value zero args fr (Arg n) = (if n < length args then Some (args ! n) else None)"
| "eval_value zero args fr (Zero typespec) = Some (Data (zero typespec))"
| "eval_value zero args fr (ConstantInt w) = Some (Int32 w)"
| "eval_value zero args fr (Loaded r) = loaded fr r"

fun eval_values :: "(TypeSpec \<Rightarrow> 'v) \<Rightarrow> 'v rtval list \<Rightarrow> 'v frame \<Rightarrow> llvm_value list \<Rightarrow> 'v rtval list option" where
  "eval_values zero args fr [] = Some []"
| "eval_values zero args fr (v # vs) =
     (case eval_value zero args fr v of
        None \<Rightarrow> None
      | Some x \<Rightarrow>
          (case eval_values zero args fr vs of
             None \<Rightarrow> None
           | Some xs \<Rightarrow> Some (x # xs)))"

fun exec_instr ::
  "(TypeSpec \<Rightarrow> 'v) \<Rightarrow> (string \<Rightarrow> 'v rtval list \<Rightarrow> (nat \<Rightarrow> 'v) \<Rightarrow> (nat \<Rightarrow> 'v)) \<Rightarrow> 'v rtval list
     \<Rightarrow> 'v frame \<Rightarrow> instr \<Rightarrow> 'v frame option" where
  "exec_instr zero ext args fr (CreateStore v p) =
     (case (eval_value zero args fr v, eval_value zero args fr p) of
        (Some (Data d), Some (Pointer a)) \<Rightarrow> Some (fr\<lparr>memory := (memory fr)(a := d)\<rparr>)
      | _ \<Rightarrow> None)"
| "exec_instr zero ext args fr (CreateLoad r p) =
     (case eval_value zero args fr p of
        Some (Pointer a) \<Rightarrow> Some (fr\<lparr>loaded := (loaded fr)(r \<mapsto> Data (memory fr a))\<rparr>)
      | _ \<Rightarrow> None)"
| "exec_instr zero ext args fr (CreateCall f vs) =
     (case eval_values zero args fr vs of
        None \<Rightarrow> None
      | Some xs \<Rightarrow> Some (fr\<lparr>memory := ext f xs (memory fr)\<rparr>))"

fun exec_body ::
  "(TypeSpec \<Rightarrow> 'v) \<Rightarrow> (string \<Rightarrow> 'v rtval list \<Rightarrow> (nat \<Rightarrow> 'v) \<Rightarrow> (nat \<Rightarrow> 'v)) \<Rightarrow> 'v rtval list
     \<Rightarrow> 'v frame \<Rightarrow> instr list \<Rightarrow> 'v frame option" where
  "exec_body zero ext args fr [] = Some fr"
| "exec_body zero ext args fr (i # is) =
     (case exec_instr zero ext args fr i of
        None \<Rightarrow> None
      | Some fr' \<Rightarrow> exec_body zero ext args fr' is)"

text \<open>
  Running the blocks from a label. A \<^verbatim>\<open>switch\<close> goes to the block of the first case
  whose constant equals the value, and to the default block when there is none. The first
  argument bounds the number of blocks entered; running out of it is \<open>None\<close>.
\<close>

fun run_blocks ::
  "nat \<Rightarrow> (TypeSpec \<Rightarrow> 'v) \<Rightarrow> (string \<Rightarrow> 'v rtval list \<Rightarrow> (nat \<Rightarrow> 'v) \<Rightarrow> (nat \<Rightarrow> 'v)) \<Rightarrow> 'v rtval list
     \<Rightarrow> (label \<Rightarrow> basic_block) \<Rightarrow> label \<Rightarrow> 'v frame \<Rightarrow> 'v frame option" where
  "run_blocks 0 zero ext args f l fr = None"
| "run_blocks (Suc fuel) zero ext args f l fr =
     (case exec_body zero ext args fr (block_body (f l)) of
        None \<Rightarrow> None
      | Some fr' \<Rightarrow>
          (case block_end (f l) of
             CreateRetVoid \<Rightarrow> Some fr'
           | CreateBr l' \<Rightarrow> run_blocks fuel zero ext args f l' fr'
           | CreateSwitch v dflt cases \<Rightarrow>
               (case eval_value zero args fr' v of
                  Some (Int32 w) \<Rightarrow>
                    run_blocks fuel zero ext args f
                      (case map_of cases w of Some l' \<Rightarrow> l' | None \<Rightarrow> dflt) fr'
                | _ \<Rightarrow> None)))"

text \<open>
  Calling an emitted function: it starts at \<^verbatim>\<open>entry\<close> with nothing loaded, and the
  result is the memory it leaves.
\<close>

definition run_function ::
  "nat \<Rightarrow> (TypeSpec \<Rightarrow> 'v) \<Rightarrow> (string \<Rightarrow> 'v rtval list \<Rightarrow> (nat \<Rightarrow> 'v) \<Rightarrow> (nat \<Rightarrow> 'v))
     \<Rightarrow> (label \<Rightarrow> basic_block) \<Rightarrow> 'v rtval list \<Rightarrow> (nat \<Rightarrow> 'v) \<Rightarrow> (nat \<Rightarrow> 'v) option" where
  "run_function fuel zero ext f args mem =
     map_option memory
       (run_blocks fuel zero ext args f L_entry \<lparr>memory = mem, loaded = Map.empty\<rparr>)"

section \<open>The texture expression cache\<close>

text \<open>
  A \<^verbatim>\<open>Tex*\<close> is the address \<open>tex_ptr\<close> of the texture together with the two fields
  that \<^verbatim>\<open>BVM_texture_cache_acquire\<close> reads through it: \<^verbatim>\<open>use_nodes\<close> and
  \<^verbatim>\<open>nodetree\<close> (\<open>None\<close> is \<^verbatim>\<open>NULL\<close>). The address is the cache key. An expression
  handle is \<^verbatim>\<open>NULL\<close> or the address of an expression.
\<close>

datatype expression_ptr = NULL | Expression nat

record Tex =
  tex_ptr :: nat
  use_nodes :: bool
  nodetree :: "nat option"

text \<open>
  The state behind the cache functions: the map \<^verbatim>\<open>bvm_tex_cache\<close>, and the number of
  calls of \<^verbatim>\<open>BVM_gen_texture_expression\<close> made so far. The expression that such a
  call returns is the parameter \<open>gen\<close> of \<open>BVM_texture_cache_acquire\<close>: it may depend
  on the texture and on the number of earlier calls.
\<close>

record cache_state =
  bvm_tex_cache :: "nat \<rightharpoonup> expression_ptr"
  compilations :: nat

definition BVM_texture_cache_acquire ::
  "(nat \<Rightarrow> Tex \<Rightarrow> expression_ptr) \<Rightarrow> Tex \<Rightarrow> cache_state \<Rightarrow> expression_ptr \<times> cache_state" where
  "BVM_texture_cache_acquire gen tex st =
     (case bvm_tex_cache st (tex_ptr tex) of
        Some e \<Rightarrow> (e, st)
      | None \<Rightarrow>
          if use_nodes tex \<and> nodetree tex \<noteq> None then
            (let expr = gen (compilations st) tex in
             (expr, \<lparr>bvm_tex_cache = (bvm_tex_cache st)(tex_ptr tex \<mapsto> expr),
                     compilations = compilations st + 1\<rparr>))
          else (NULL, st))"

definition BVM_texture_cache_release :: "Tex \<Rightarrow> cache_state \<Rightarrow> cache_state" where
  "BVM_texture_cache_release tex st = st"

definition BVM_texture_cache_invalidate :: "Tex \<Rightarrow> cache_state \<Rightarrow> cache_state" where
  "BVM_texture_cache_invalidate tex st =
     (case bvm_tex_cache st (tex_ptr tex) of
        Some e \<Rightarrow> st\<lparr>bvm_tex_cache := (bvm_tex_cache st)(tex_ptr tex := None)\<rparr>
      | None \<Rightarrow> st)"

definition BVM_texture_cache_clear :: "cache_state \<Rightarrow> cache_state" where
  "BVM_texture_cache_clear st = st\<lparr>bvm_tex_cache := Map.empty\<rparr>"

subsection \<open>Concurrent callers\<close>

text \<open>
  \<^verbatim>\<open>BVM_texture_cache_acquire\<close> step by step, for threads that share the cache and its
  mutex \<^verbatim>\<open>bvm_tex_mutex\<close>. A thread is at one of these points of the function:
  before the \<^verbatim>\<open>scoped_lock\<close> is constructed; before \<^verbatim>\<open>find\<close>; before the call of
  \<^verbatim>\<open>BVM_gen_texture_expression\<close>; before the assignment to the map slot; before it
  leaves the scope (which destroys the lock) with its result; and returned.
\<close>

datatype pc =
    AtLock
  | AtFind
  | AtGen
  | AtStore expression_ptr
  | AtLeave expression_ptr
  | Returned expression_ptr

record system =
  bvm_tex_mutex :: "nat option"
  shared :: cache_state
  pcs :: "nat \<Rightarrow> pc"

text \<open>
  One step of thread \<open>t\<close>, which executes \<open>BVM_texture_cache_acquire(tex)\<close>. The
  constructor of \<^verbatim>\<open>scoped_lock\<close> takes the mutex and blocks while another thread owns
  it; a thread that is blocked or has returned makes no step (\<open>None\<close>).
\<close>

definition step :: "(nat \<Rightarrow> Tex \<Rightarrow> expression_ptr) \<Rightarrow> Tex \<Rightarrow> nat \<Rightarrow> system \<Rightarrow> system option" where
  "step gen tex t s =
     (case pcs s t of
        AtLock \<Rightarrow>
          (case bvm_tex_mutex s of
             None \<Rightarrow> Some (s\<lparr>bvm_tex_mutex := Some t, pcs := (pcs s)(t := AtFind)\<rparr>)
           | Some owner \<Rightarrow> None)
      | AtFind \<Rightarrow>
          (case bvm_tex_cache (shared s) (tex_ptr tex) of
             Some e \<Rightarrow> Some (s\<lparr>pcs := (pcs s)(t := AtLeave e)\<rparr>)
           | None \<Rightarrow>
               if use_nodes tex \<and> nodetree tex \<noteq> None
               then Some (s\<lparr>pcs := (pcs s)(t := AtGen)\<rparr>)
               else Some (s\<lparr>pcs := (pcs s)(t := AtLeave NULL)\<rparr>))
      | AtGen \<Rightarrow>
          (let expr = gen (compilations (shared s)) tex in
           Some (s\<lparr>shared := (shared s)\<lparr>compilations := compilations (shared s) + 1\<rparr>,
                   pcs := (pcs s)(t := AtStore expr)\<rparr>))
      | AtStore expr \<Rightarrow>
          Some (s\<lparr>shared := (shared s)\<lparr>bvm_tex_cache := (bvm_tex_cache (shared s))(tex_ptr tex \<mapsto> expr)\<rparr>,
                  pcs := (pcs s)(t := AtLeave expr)\<rparr>)
      | AtLeave r \<Rightarrow>
          Some (s\<lparr>bvm_tex_mutex := None, pcs := (pcs s)(t := Returned r)\<rparr>)
      | Returned r \<Rightarrow> None)"

text \<open>
  A schedule is the list of the threads that step, in order; running it fails when it
  names a thread that cannot step.
\<close>

fun run_schedule :: "(nat \<Rightarrow> Tex \<Rightarrow> expression_ptr) \<Rightarrow> Tex \<Rightarrow> nat list \<Rightarrow> system \<Rightarrow> system option" where
  "run_schedule gen tex [] s = Some s"
| "run_schedule gen tex (t # ts) s =
     (case step gen tex t s of
        None \<Rightarrow> None
      | Some s' \<Rightarrow> run_schedule gen tex ts s')"

text \<open>
  The start: no thread has entered the function and nobody owns the mutex.
\<close>

definition start :: "cache_state \<Rightarrow> system" where
  "start st = \<lparr>bvm_tex_mutex = None, shared = st, pcs = (\<lambda>t. AtLock)\<rparr>"

text \<open>A thread is inside the locked scope between taking the mutex and leaving.\<close>

fun in_scope :: "pc \<Rightarrow> bool" where
  "in_scope AtLock = False"
| "in_scope (Returned r) = False"
| "in_scope p = True"

text \<open>
  The invariant of the concurrent callers of one key: a thread inside the locked scope
  owns the mutex; a thread about to generate the expression has seen the key absent; and
  the number of generated expressions is \<open>c0\<close>, plus one once an expression for the key
  has been generated (it is held by a thread about to store it, or it is in the map).
\<close>

definition serialized :: "nat \<Rightarrow> nat \<Rightarrow> system \<Rightarrow> bool" where
  "serialized key c0 s \<longleftrightarrow>
     (\<forall>t. in_scope (pcs s t) \<longrightarrow> bvm_tex_mutex s = Some t) \<and>
     (\<forall>t. pcs s t = AtGen \<longrightarrow> bvm_tex_cache (shared s) key = None) \<and>
     compilations (shared s) =
       c0 + (if bvm_tex_cache (shared s) key \<noteq> None \<or> (\<exists>t e. pcs s t = AtStore e) then 1 else 0)"

section \<open>Single-precision floats\<close>

text \<open>
  A \<^verbatim>\<open>float\<close> is its IEEE 754 binary32 bit pattern: sign bit 31, biased exponent in
  bits 30 to 23, fraction in bits 22 to 0. Exponent field 255 is an infinity (fraction
  zero) or a NaN; exponent field 0 is a zero or a subnormal number.
\<close>

type_synonym float = "32 word"

definition float_sign :: "float \<Rightarrow> bool" where
  "float_sign w = (2 ^ 31 \<le> unat w)"

definition float_exponent :: "float \<Rightarrow> nat" where
  "float_exponent w = (unat w div 2 ^ 23) mod 256"

definition float_fraction :: "float \<Rightarrow> nat" where
  "float_fraction w = unat w mod 2 ^ 23"

definition is_nan :: "float \<Rightarrow> bool" where
  "is_nan w = (float_exponent w = 255 \<and> float_fraction w \<noteq> 0)"

definition is_infinity :: "float \<Rightarrow> bool" where
  "is_infinity w = (float_exponent w = 255 \<and> float_fraction w = 0)"

definition is_zero :: "float \<Rightarrow> bool" where
  "is_zero w = (float_exponent w = 0 \<and> float_fraction w = 0)"

text \<open>
  Every finite float is a multiple of 2 to the power -149; \<open>magnitude w\<close> is the absolute
  value of \<open>w\<close> in that unit, a natural number.
\<close>

definition magnitude :: "float \<Rightarrow> nat" where
  "magnitude w =
     (if float_exponent w = 0 then float_fraction w
      else (2 ^ 23 + float_fraction w) * 2 ^ (float_exponent w - 1))"

definition signed_magnitude :: "float \<Rightarrow> int" where
  "signed_magnitude w = (if float_sign w then - int (magnitude w) else int (magnitude w))"

text \<open>The number of binary digits of a natural number.\<close>

fun bitlen :: "nat \<Rightarrow> nat" where
  "bitlen n = (if n = 0 then 0 else bitlen (n div 2) + 1)"

text \<open>
  Rounding to nearest, ties to even: \<open>round_half_even n d\<close> is the integer nearest to
  \<open>n / d\<close>, computed from the quotient \<open>f\<close> and twice the remainder \<open>r2\<close>.
\<close>

definition nearest_even :: "nat \<Rightarrow> nat \<Rightarrow> nat \<Rightarrow> nat" where
  "nearest_even f r2 d =
     (if r2 < d then f
      else if d < r2 then f + 1
      else if even f then f else f + 1)"

definition round_half_even :: "nat \<Rightarrow> nat \<Rightarrow> nat" where
  "round_half_even n d = nearest_even (n div d) (2 * (n mod d)) d"

text \<open>
  The bit pattern of a sign and of the bits below it; what lies beyond the largest
  finite number is the infinity.
\<close>

definition float_pack :: "bool \<Rightarrow> nat \<Rightarrow> float" where
  "float_pack negative bits = word_of_nat ((if negative then 2 ^ 31 else 0) + min bits (255 * 2 ^ 23))"

text \<open>
  \<open>round_float negative n d\<close> is the float nearest to the magnitude \<open>n / d\<close> (in that
  unit). With \<open>k\<close> the number of digits of the magnitude beyond 24, the 24-bit
  significand \<open>m\<close> is the magnitude divided by \<open>2 ^ k\<close>, rounded; the bits are
  \<open>k * 2 ^ 23 + m\<close>, where a significand that rounds up to \<open>2 ^ 24\<close> carries into
  the exponent.
\<close>

definition round_at :: "bool \<Rightarrow> nat \<Rightarrow> nat \<Rightarrow> nat \<Rightarrow> float" where
  "round_at negative n d k = float_pack negative (k * 2 ^ 23 + round_half_even n (d * 2 ^ k))"

definition round_float :: "bool \<Rightarrow> nat \<Rightarrow> nat \<Rightarrow> float" where
  "round_float negative n d = round_at negative n d (bitlen (n div d) - 24)"

definition float_NaN :: float where
  "float_NaN = 0x7FC00000"

definition float_infinity :: "bool \<Rightarrow> float" where
  "float_infinity negative = float_pack negative (255 * 2 ^ 23)"

definition float_zero :: "bool \<Rightarrow> float" where
  "float_zero negative = float_pack negative 0"

text \<open>
  The operators \<^verbatim>\<open>*\<close>, \<^verbatim>\<open>/\<close> and \<^verbatim>\<open>+\<close> on \<^verbatim>\<open>float\<close>: the exact result of the
  operation rounded to nearest, with the special values of IEEE 754. An invalid operation
  yields the quiet NaN \<open>float_NaN\<close>.
\<close>

definition fmul :: "float \<Rightarrow> float \<Rightarrow> float" where
  "fmul a b =
     (if is_nan a \<or> is_nan b then float_NaN
      else if is_infinity a \<or> is_infinity b then
        (if is_zero a \<or> is_zero b then float_NaN else float_infinity (float_sign a \<noteq> float_sign b))
      else round_float (float_sign a \<noteq> float_sign b) (magnitude a * magnitude b) (2 ^ 149))"

definition fdiv :: "float \<Rightarrow> float \<Rightarrow> float" where
  "fdiv a b =
     (if is_nan a \<or> is_nan b then float_NaN
      else if is_infinity a then (if is_infinity b then float_NaN else float_infinity (float_sign a \<noteq> float_sign b))
      else if is_infinity b then float_zero (float_sign a \<noteq> float_sign b)
      else if is_zero b then (if is_zero a then float_NaN else float_infinity (float_sign a \<noteq> float_sign b))
      else round_float (float_sign a \<noteq> float_sign b) (magnitude a * 2 ^ 149) (magnitude b))"

definition round_sum :: "bool \<Rightarrow> int \<Rightarrow> float" where
  "round_sum both_negative s =
     (if s = 0 then float_zero both_negative else round_float (s < 0) (nat \<bar>s\<bar>) 1)"

definition fadd :: "float \<Rightarrow> float \<Rightarrow> float" where
  "fadd a b =
     (if is_nan a \<or> is_nan b then float_NaN
      else if is_infinity a then (if is_infinity b \<and> float_sign a \<noteq> float_sign b then float_NaN else a)
      else if is_infinity b then b
      else round_sum (float_sign a \<and> float_sign b) (signed_magnitude a + signed_magnitude b))"

text \<open>
  \<^verbatim>\<open>sqrtf\<close>: the square root rounded to nearest. \<open>sqrt_floor n\<close> is the integer
  square root, found bit by bit from the top. The significand \<open>m\<close> is the integer square
  root of the scaled argument; it is rounded up when the square of \<open>m + 1/2\<close> is below
  the argument.
\<close>

fun sqrt_bits :: "nat \<Rightarrow> nat \<Rightarrow> nat \<Rightarrow> nat" where
  "sqrt_bits n r p =
     (if p = 0 then r
      else sqrt_bits n (if (r + p) * (r + p) \<le> n then r + p else r) (p div 2))"

definition sqrt_floor :: "nat \<Rightarrow> nat" where
  "sqrt_floor n = sqrt_bits n 0 (2 ^ (bitlen n div 2))"

definition sqrt_round :: "nat \<Rightarrow> nat \<Rightarrow> nat \<Rightarrow> float" where
  "sqrt_round n k m =
     float_pack False (k * 2 ^ 23 +
       (if (2 * m + 1) * (2 * m + 1) * 4 ^ k < 4 * n then m + 1
        else if 4 * n < (2 * m + 1) * (2 * m + 1) * 4 ^ k then m
        else if even m then m else m + 1))"

definition sqrt_at :: "nat \<Rightarrow> nat \<Rightarrow> float" where
  "sqrt_at n k = sqrt_round n k (sqrt_floor (n div 4 ^ k))"

definition sqrt_finite :: "nat \<Rightarrow> float" where
  "sqrt_finite n = sqrt_at n (bitlen (sqrt_floor n) - 24)"

definition fsqrt :: "float \<Rightarrow> float" where
  "fsqrt a =
     (if is_nan a then float_NaN
      else if is_zero a then a
      else if float_sign a then float_NaN
      else if is_infinity a then a
      else sqrt_finite (magnitude a * 2 ^ 149))"

text \<open>
  The comparisons \<^verbatim>\<open>>\<close> and \<^verbatim>\<open>!=\<close>. Floats that are not NaN are ordered by
  \<open>float_key\<close>, under which the two zeros are equal; a NaN is unordered, so \<^verbatim>\<open>>\<close> is
  false and \<^verbatim>\<open>!=\<close> is true when an operand is a NaN.
\<close>

definition float_key :: "float \<Rightarrow> int" where
  "float_key w = (if float_sign w then - int (unat w mod 2 ^ 31) else int (unat w mod 2 ^ 31))"

definition float_gt :: "float \<Rightarrow> float \<Rightarrow> bool" where
  "float_gt a b = (\<not> is_nan a \<and> \<not> is_nan b \<and> float_key b < float_key a)"

definition float_ne :: "float \<Rightarrow> float \<Rightarrow> bool" where
  "float_ne a b = (is_nan a \<or> is_nan b \<or> float_key a \<noteq> float_key b)"

text \<open>The float that a decimal constant \<open>n / d\<close> denotes: the nearest one.\<close>

definition float_of_ratio :: "nat \<Rightarrow> nat \<Rightarrow> float" where
  "float_of_ratio n d = round_float False (n * 2 ^ 149) d"

section \<open>Elementary operations\<close>

text \<open>
  \<^verbatim>\<open>float3\<close> with its members \<^verbatim>\<open>x\<close>, \<^verbatim>\<open>y\<close>, \<^verbatim>\<open>z\<close>.
\<close>

datatype float3 = Float3 (vx: float) (vy: float) (vz: float)

text \<open>
  The evaluation functions read and write the stack through \<^verbatim>\<open>stack_load_float\<close>,
  \<^verbatim>\<open>stack_load_float3\<close>, \<^verbatim>\<open>stack_store_float\<close> and \<^verbatim>\<open>stack_store_float3\<close>, which
  are declared in \<^verbatim>\<open>bvm_eval_common.h\<close>, outside the sources at hand. They are the
  parameter \<open>S\<close> of every evaluation function, over any type \<open>'s\<close> of stacks and any
  type \<open>'i\<close> of \<^verbatim>\<open>StackIndex\<close>.
\<close>

record ('s, 'i) stack_access =
  stack_load_float :: "'s \<Rightarrow> 'i \<Rightarrow> float"
  stack_load_float3 :: "'s \<Rightarrow> 'i \<Rightarrow> float3"
  stack_store_float :: "'s \<Rightarrow> 'i \<Rightarrow> float \<Rightarrow> 's"
  stack_store_float3 :: "'s \<Rightarrow> 'i \<Rightarrow> float3 \<Rightarrow> 's"

text \<open>
  Modelled from the spec: \<^verbatim>\<open>div_safe\<close> is declared in \<^verbatim>\<open>bvm_util_math.h\<close>, which
  is not among the sources. The spec defines a division by zero to return the safe
  sentinel zero rather than to signal an error; with any other divisor it is the
  division.
\<close>

definition div_safe :: "float \<Rightarrow> float \<Rightarrow> float" where
  "div_safe a b = (if float_ne b 0 then fdiv a b else 0)"

text \<open>\<^verbatim>\<open>eval_op_div_float\<close>.\<close>

definition eval_op_div_float :: "('s, 'i) stack_access \<Rightarrow> 's \<Rightarrow> 'i \<Rightarrow> 'i \<Rightarrow> 'i \<Rightarrow> 's" where
  "eval_op_div_float S stack offset_a offset_b offset_r =
     (let a = stack_load_float S stack offset_a;
          b = stack_load_float S stack offset_b
      in stack_store_float S stack offset_r (div_safe a b))"

text \<open>
  \<^verbatim>\<open>eval_op_modulo\<close>. The library function \<^verbatim>\<open>fmodf\<close> is a parameter. The result is
  the stack together with the calls of \<^verbatim>\<open>fmodf\<close> that were made, each with its two
  arguments: the conditional operator evaluates only the chosen branch.
\<close>

definition eval_op_modulo ::
  "('s, 'i) stack_access \<Rightarrow> (float \<Rightarrow> float \<Rightarrow> float) \<Rightarrow> 's \<Rightarrow> 'i \<Rightarrow> 'i \<Rightarrow> 'i \<Rightarrow> 's \<times> (float \<times> float) list" where
  "eval_op_modulo S fmodf stack offset_a offset_b offset_r =
     (let a = stack_load_float S stack offset_a;
          b = stack_load_float S stack offset_b
      in if float_ne b 0
         then (stack_store_float S stack offset_r (fmodf a b), [(a, b)])
         else (stack_store_float S stack offset_r 0, []))"

text \<open>
  \<^verbatim>\<open>eval_op_normalize_float3\<close>. The constant \<^verbatim>\<open>1.0f\<close> is \<open>0x3F800000\<close> and
  \<^verbatim>\<open>0.0f\<close> is \<open>0\<close>. The result is the stack together with the float divisions that
  were made, each with its dividend and divisor.
\<close>

definition eval_op_normalize_float3 ::
  "('s, 'i) stack_access \<Rightarrow> 's \<Rightarrow> 'i \<Rightarrow> 'i \<Rightarrow> 'i \<Rightarrow> 's \<times> (float \<times> float) list" where
  "eval_op_normalize_float3 S stack offset offset_vec offset_val =
     (let v = stack_load_float3 S stack offset;
          l = fsqrt (fadd (fadd (fmul (vx v) (vx v)) (fmul (vy v) (vy v))) (fmul (vz v) (vz v)));
          (f, divisions) = (if float_gt l 0 then (fdiv 0x3F800000 l, [(0x3F800000, l)]) else (0, []));
          vec = Float3 (fmul (vx v) f) (fmul (vy v) f) (fmul (vz v) f)
      in (stack_store_float S (stack_store_float3 S stack offset_vec vec) offset_val l, divisions))"

section \<open>Example inputs\<close>

text \<open>
  Scalar types, and a dual-value predicate under which the float kinds carry
  derivatives and the integer and matrix kinds do not.
\<close>

definition scalar :: "BVMType \<Rightarrow> TypeSpec" where
  "scalar b = \<lparr>base_type = b, is_aggregate = False, is_structure = False\<rparr>"

definition float_kinds :: "TypeSpec \<Rightarrow> bool" where
  "float_kinds typespec =
     (\<not> is_structure typespec \<and>
      (base_type typespec = BVM_FLOAT \<or> base_type typespec = BVM_FLOAT3 \<or> base_type typespec = BVM_FLOAT4))"

text \<open>
  A node type with the sockets of the random-number operation
  (\<^verbatim>\<open>eval_op_int_to_random\<close>): a constant seed and an integer input, an integer
  output followed by a float output.
\<close>

definition int_to_random :: NodeType where
  "int_to_random =
     \<lparr>name = ''INT_TO_RANDOM'',
      outputs = [\<lparr>output_name = ''irandom'', output_typespec = scalar BVM_INT\<rparr>,
                 \<lparr>output_name = ''frandom'', output_typespec = scalar BVM_FLOAT\<rparr>],
      inputs = [\<lparr>input_name = ''seed'', input_typespec = scalar BVM_INT, value_type = INPUT_CONSTANT\<rparr>,
                \<lparr>input_name = ''value'', input_typespec = scalar BVM_INT, value_type = INPUT_EXPRESSION\<rparr>]\<rparr>"

text \<open>
  A get-derivative node type: the index input, then the float input whose derivative is
  extracted.
\<close>

definition get_derivative_float :: NodeType where
  "get_derivative_float =
     \<lparr>name = ''GET_DERIVATIVE_FLOAT'',
      outputs = [\<lparr>output_name = ''derivative'', output_typespec = scalar BVM_FLOAT\<rparr>],
      inputs = [\<lparr>input_name = ''variable'', input_typespec = scalar BVM_INT, value_type = INPUT_CONSTANT\<rparr>,
                \<lparr>input_name = ''value'', input_typespec = scalar BVM_FLOAT, value_type = INPUT_EXPRESSION\<rparr>]\<rparr>"

text \<open>
  A texture with a node tree, one without, an empty cache, and a generator that returns
  a fresh expression at every call.
\<close>

definition texA :: Tex where
  "texA = \<lparr>tex_ptr = 1, use_nodes = True, nodetree = Some 7\<rparr>"

definition texB :: Tex where
  "texB = \<lparr>tex_ptr = 2, use_nodes = True, nodetree = None\<rparr>"

definition empty_cache :: cache_state where
  "empty_cache = \<lparr>bvm_tex_cache = Map.empty, compilations = 0\<rparr>"

definition fresh :: "nat \<Rightarrow> Tex \<Rightarrow> expression_ptr" where
  "fresh n tex = Expression n"

text \<open>
  A stack of float cells addressed by natural numbers; a \<^verbatim>\<open>float3\<close> takes three
  consecutive cells.
\<close>

definition cells :: "(nat \<Rightarrow> float, nat) stack_access" where
  "cells =
     \<lparr>stack_load_float = (\<lambda>stack i. stack i),
      stack_load_float3 = (\<lambda>stack i. Float3 (stack i) (stack (i + 1)) (stack (i + 2))),
      stack_store_float = (\<lambda>stack i f. stack(i := f)),
      stack_store_float3 = (\<lambda>stack i v. stack(i := vx v, i + 1 := vy v, i + 2 := vz v))\<rparr>"

section \<open>Properties\<close>

text \<open>
  C6. For every TypeSpec, \<open>use_argument_pointer\<close> answers pass-by-reference exactly when
  the TypeSpec is an aggregate or a structure, or when \<open>use_dual\<close> is set and the type
  has a dual value; in every other case it answers pass-by-value.
\<close>

theorem use_argument_pointer_iff:
  "use_argument_pointer has_dual typespec use_dual =
     (is_aggregate typespec \<or> is_structure typespec \<or> (use_dual \<and> has_dual typespec))"
  by (simp add: use_argument_pointer_def)

subsection \<open>The dual wrapper\<close>

text \<open>
  With a value function and a declared wrapper, the wrapper starts with the one call of
  the value function, on the value arguments; no later instruction calls it again as
  long as the derivative function is another function.
\<close>

lemma wrapper_begins_with_value_call:
  assumes "define_dual_function_wrapper has_dual (Some vf) deriv_func True nodetype = Inr (Defined b)"
  shows "\<exists>rest. block_body b = CreateCall vf (call_args_value (collect_arguments has_dual nodetype)) # rest
           \<and> (\<forall>args. deriv_func \<noteq> Some vf \<longrightarrow> CreateCall vf args \<notin> set rest)"
proof (cases deriv_func)
  case (Some df)
  with assms show ?thesis
    by (auto simp: define_dual_function_wrapper_def Let_def)
next
  case None
  have only_stores: "zero_derivatives has_dual a outs i = Inr stores \<Longrightarrow> CreateCall f args \<notin> set stores"
    for a outs i stores f args
    by (induction has_dual a outs i arbitrary: stores rule: zero_derivatives.induct)
       (auto simp: Let_def split: if_splits sum.splits)
  from None assms show ?thesis
    by (auto simp: define_dual_function_wrapper_def Let_def split: sum.splits dest: only_stores)
qed

text \<open>
  With a derivative function, the wrapper is the call of the value function followed by
  two calls of the derivative function, the first on the \<open>dx\<close> arguments and the second
  on the \<open>dy\<close> arguments.
\<close>

lemma wrapper_with_derivative:
  "define_dual_function_wrapper has_dual (Some vf) (Some df) True nodetype =
     Inr (Defined
       \<lparr>block_body =
          [CreateCall vf (call_args_value (collect_arguments has_dual nodetype)),
           CreateCall df (call_args_dx (collect_arguments has_dual nodetype)),
           CreateCall df (call_args_dy (collect_arguments has_dual nodetype))],
        block_end = CreateRetVoid\<rparr>)"
  by (simp add: define_dual_function_wrapper_def Let_def)

text \<open>
  When every output has a dual value, the zeroing loop is right: without a derivative
  function the wrapper stores a zero through the \<open>dx\<close> and the \<open>dy\<close> slot of every
  output (output \<open>j\<close> occupies the formal arguments \<open>3 * j\<close> to \<open>3 * j + 2\<close>).
\<close>

lemma outputs_all_dual:
  assumes "\<forall>output \<in> set outs. has_dual (output_typespec output)"
  shows "foldl (output_arguments has_dual) a outs =
           \<lparr>arg_it = arg_it a + 3 * length outs,
            call_args_value = call_args_value a @ map (\<lambda>j. Arg (arg_it a + 3 * j)) [0..<length outs],
            call_args_dx = call_args_dx a @ map (\<lambda>j. Arg (arg_it a + 3 * j + 1)) [0..<length outs],
            call_args_dy = call_args_dy a @ map (\<lambda>j. Arg (arg_it a + 3 * j + 2)) [0..<length outs]\<rparr>"
  using assms
proof (induction outs rule: rev_induct)
  case Nil
  then show ?case by simp
next
  case (snoc out outs)
  then show ?case
    by (simp add: output_arguments_def Let_def)
qed

lemma inputs_extend:
  "\<exists>more_dx more_dy.
     call_args_dx (foldl (input_arguments has_dual) a ins) = call_args_dx a @ more_dx \<and>
     call_args_dy (foldl (input_arguments has_dual) a ins) = call_args_dy a @ more_dy"
proof (induction ins rule: rev_induct)
  case Nil
  then show ?case by simp
next
  case (snoc input ins)
  then show ?case
    by (auto simp: input_arguments_def Let_def)
qed

lemma zero_derivatives_all_dual:
  assumes "\<forall>output \<in> set outs. has_dual (output_typespec output)"
    and "i + length outs \<le> length (call_args_dx a)"
    and "i + length outs \<le> length (call_args_dy a)"
  shows "zero_derivatives has_dual a outs i =
           Inr (concat (map (\<lambda>(j, output).
                  [CreateStore (Zero (output_typespec output)) (call_args_dx a ! j),
                   CreateStore (Zero (output_typespec output)) (call_args_dy a ! j)])
                (zip [i..<i + length outs] outs)))"
  using assms
proof (induction outs arbitrary: i)
  case Nil
  then show ?case by simp
next
  case (Cons out outs)
  have "i < i + length (out # outs)"
    by simp
  from upt_conv_Cons [OF this]
  have "[i..<i + length (out # outs)] = i # [Suc i..<Suc i + length outs]"
    by simp
  with Cons show ?case
    by (simp add: Let_def)
qed

lemma wrapper_zeroes_all_dual:
  assumes "\<forall>output \<in> set (outputs nodetype). has_dual (output_typespec output)"
  shows "define_dual_function_wrapper has_dual (Some vf) None True nodetype =
           Inr (Defined
             \<lparr>block_body =
                CreateCall vf (call_args_value (collect_arguments has_dual nodetype)) #
                concat (map (\<lambda>(j, output).
                    [CreateStore (Zero (output_typespec output)) (Arg (3 * j + 1)),
                     CreateStore (Zero (output_typespec output)) (Arg (3 * j + 2))])
                  (zip [0..<num_outputs nodetype] (outputs nodetype))),
              block_end = CreateRetVoid\<rparr>)"
proof -
  let ?n = "length (outputs nodetype)"
  let ?init = "\<lparr>arg_it = 0, call_args_value = [], call_args_dx = [], call_args_dy = []\<rparr>"
  let ?a = "collect_arguments has_dual nodetype"
  let ?b = "foldl (output_arguments has_dual) ?init (outputs nodetype)"
  obtain more_dx more_dy where
    ext: "call_args_dx (foldl (input_arguments has_dual) ?b (inputs nodetype)) = call_args_dx ?b @ more_dx"
         "call_args_dy (foldl (input_arguments has_dual) ?b (inputs nodetype)) = call_args_dy ?b @ more_dy"
    using inputs_extend [of has_dual ?b "inputs nodetype"] by blast
  have dx: "call_args_dx ?a = map (\<lambda>j. Arg (3 * j + 1)) [0..<?n] @ more_dx"
    using ext(1) by (simp add: collect_arguments_def outputs_all_dual [OF assms])
  have dy: "call_args_dy ?a = map (\<lambda>j. Arg (3 * j + 2)) [0..<?n] @ more_dy"
    using ext(2) by (simp add: collect_arguments_def outputs_all_dual [OF assms])
  have z: "zero_derivatives has_dual ?a (outputs nodetype) 0 =
           Inr (concat (map (\<lambda>(j, output).
                  [CreateStore (Zero (output_typespec output)) (call_args_dx ?a ! j),
                   CreateStore (Zero (output_typespec output)) (call_args_dy ?a ! j)])
                (zip [0..<0 + ?n] (outputs nodetype))))"
    by (rule zero_derivatives_all_dual [OF assms]) (simp_all add: dx dy)
  have "map (\<lambda>(j, output).
                  [CreateStore (Zero (output_typespec output)) (call_args_dx ?a ! j),
                   CreateStore (Zero (output_typespec output)) (call_args_dy ?a ! j)])
                (zip [0..<?n] (outputs nodetype))
      = map (\<lambda>(j, output).
                    [CreateStore (Zero (output_typespec output)) (Arg (3 * j + 1)),
                     CreateStore (Zero (output_typespec output)) (Arg (3 * j + 2))])
                  (zip [0..<?n] (outputs nodetype))"
    by (rule map_cong) (auto simp: dx dy nth_append dest!: set_zip_leftD)
  with z show ?thesis
    by (simp add: define_dual_function_wrapper_def Let_def num_outputs_def)
qed

text \<open>
  C1. The wrapper calls the value function once on the value arguments, and the
  derivative function, when there is one, once on the \<open>dx\<close> and once on the \<open>dy\<close>
  arguments (\<open>wrapper_begins_with_value_call\<close>, \<open>wrapper_with_derivative\<close>). Without
  a derivative function it is meant to store zero into the \<open>dx\<close> and \<open>dy\<close> slots of
  every output with a dual value, but it reads the slot of output \<open>i\<close> at index \<open>i\<close>
  of vectors that hold the slots of the dual outputs only, followed by the inputs. For the
  node type \<open>int_to_random\<close>, whose integer output comes before its float output, the
  formal arguments are: 0 the integer output, 1 to 3 the float output with its \<open>dx\<close>
  and \<open>dy\<close> slots, 4 the seed, 5 the input. The two zeros are stored through the seed
  (argument 4); the slots 2 and 3 are never written.
\<close>

theorem wrapper_zeroes_wrong_slot:
  "define_dual_function_wrapper float_kinds (Some ''value_fn'') None True int_to_random =
     Inr (Defined
       \<lparr>block_body =
          [CreateCall ''value_fn'' [Arg 0, Arg 1, Arg 4, Arg 5],
           CreateStore (Zero (scalar BVM_FLOAT)) (Arg 4),
           CreateStore (Zero (scalar BVM_FLOAT)) (Arg 4)],
        block_end = CreateRetVoid\<rparr>)"
  by (simp add: define_dual_function_wrapper_def collect_arguments_def output_arguments_def
        input_arguments_def int_to_random_def float_kinds_def scalar_def Let_def)

subsection \<open>The get-derivative node\<close>

text \<open>
  C4. The function emitted for a get-derivative node type, called with the output
  pointers \<open>pv\<close>, \<open>px\<close>, \<open>py\<close> (pairwise distinct), the index \<open>idx\<close> and the
  upstream value with its derivatives \<open>ux\<close> and \<open>uy\<close> (passed by value, or by
  pointers that are not the output's derivative slots), returns and leaves: in the
  output value \<open>ux\<close> for index 0, \<open>uy\<close> for index 1, and what it held before for any
  other index; zero in the output's \<open>dx\<close> and \<open>dy\<close> slots in every case; every other
  address unchanged. The two zero stores are the body of the entry block, before the
  switch.
\<close>

theorem get_derivative_dispatch:
  fixes mem :: "nat \<Rightarrow> 'v" and zero :: "TypeSpec \<Rightarrow> 'v"
  assumes ni: "1 < num_inputs nodetype"
    and ts: "typespec = input_typespec (inputs nodetype ! 1)"
    and d: "distinct [pv, px, py]"
    and up: "if use_argument_pointer has_dual typespec False
             then in_dx = Pointer qx \<and> in_dy = Pointer qy \<and> qx \<notin> {px, py} \<and> qy \<notin> {px, py}
                  \<and> ux = mem qx \<and> uy = mem qy
             else in_dx = Data ux \<and> in_dy = Data uy"
    and fuel: "3 \<le> fuel"
  shows "\<exists>f. define_get_derivative has_dual True nodetype = Inr (Defined f)
           \<and> block_body (f L_entry) = [CreateStore (Zero typespec) (Arg 1), CreateStore (Zero typespec) (Arg 2)]
           \<and> run_function fuel zero ext f
                [Pointer pv, Pointer px, Pointer py, Int32 idx, in_val, in_dx, in_dy] mem
              = Some (\<lambda>a. if a = pv then (if idx = 0 then ux else if idx = 1 then uy else mem pv)
                          else if a = px \<or> a = py then zero typespec
                          else mem a)"
proof -
  obtain k where k: "fuel = Suc (Suc (Suc k))"
    using fuel by (metis Suc_le_D numeral_3_eq_3 Suc_le_mono)
  show ?thesis
    using ni ts d up unfolding k
    by (auto simp: define_get_derivative_def run_function_def select_derivative_def Let_def fun_eq_iff
             split: if_splits)
qed

theorem get_derivative_dispatch_witness:
  "\<exists>f. define_get_derivative float_kinds True get_derivative_float = Inr (Defined f)
     \<and> map_option (\<lambda>m. (m 10, m 11, m 12, m 13))
         (run_function 3 (\<lambda>t. 0 :: int) (\<lambda>f xs m. m) f
            [Pointer 10, Pointer 11, Pointer 12, Int32 1, Data 7, Data 8, Data 9] (\<lambda>a. 5))
       = Some (9, 0, 0, 5)"
proof -
  have ni: "1 < num_inputs get_derivative_float"
    by (simp add: num_inputs_def get_derivative_float_def)
  have d: "distinct [10 :: nat, 11, 12]" by simp
  have up: "if use_argument_pointer float_kinds (scalar BVM_FLOAT) False
            then (Data 8 :: int rtval) = Pointer 0 \<and> (Data 9 :: int rtval) = Pointer 0 \<and> (0::nat) \<notin> {11, 12} \<and> (0::nat) \<notin> {11, 12}
                 \<and> (8::int) = (\<lambda>a. 5) (0::nat) \<and> (9::int) = (\<lambda>a. 5) (0::nat)
            else (Data 8 :: int rtval) = Data 8 \<and> (Data 9 :: int rtval) = Data 9"
    by (simp add: use_argument_pointer_def scalar_def float_kinds_def)
  have ts: "scalar BVM_FLOAT = input_typespec (inputs get_derivative_float ! 1)"
    by (simp add: get_derivative_float_def)
  from get_derivative_dispatch [OF ni ts d up order_refl, of "\<lambda>t. 0" "\<lambda>f xs m. m" 1 "Data 7"]
  show ?thesis by auto
qed

subsection \<open>The cache\<close>

text \<open>
  C2. When the key of the texture is in the cache, acquire returns the stored expression
  and leaves the whole state unchanged: the map and the number of compilations. So a
  second acquire, after a first one that left the key in the cache, returns the same
  expression as the first and changes nothing. Acquire changes the state only when the key
  was absent.
\<close>

theorem acquire_present:
  "(bvm_tex_cache st (tex_ptr tex) = Some e \<longrightarrow> BVM_texture_cache_acquire gen tex st = (e, st))
   \<and> (BVM_texture_cache_acquire gen tex st = (e1, st1) \<and> bvm_tex_cache st1 (tex_ptr tex) \<noteq> None
        \<longrightarrow> BVM_texture_cache_acquire gen tex st1 = (e1, st1))
   \<and> (snd (BVM_texture_cache_acquire gen tex st) \<noteq> st \<longrightarrow> bvm_tex_cache st (tex_ptr tex) = None)"
  by (auto simp: BVM_texture_cache_acquire_def Let_def split: option.splits if_splits)

theorem acquire_present_witness:
  "BVM_texture_cache_acquire fresh texA empty_cache
     = (Expression 0, \<lparr>bvm_tex_cache = [1 \<mapsto> Expression 0], compilations = 1\<rparr>)
   \<and> BVM_texture_cache_acquire fresh texA \<lparr>bvm_tex_cache = [1 \<mapsto> Expression 0], compilations = 1\<rparr>
     = (Expression 0, \<lparr>bvm_tex_cache = [1 \<mapsto> Expression 0], compilations = 1\<rparr>)"
  using acquire_present [of "\<lparr>bvm_tex_cache = [1 \<mapsto> Expression 0], compilations = 1\<rparr>" texA "Expression 0" fresh]
  by (simp add: BVM_texture_cache_acquire_def texA_def empty_cache_def fresh_def Let_def)

text \<open>
  C7. For a texture whose key is absent from the cache and which has \<^verbatim>\<open>use_nodes\<close>
  unset or no node tree, acquire returns the null handle and leaves the state unchanged:
  the map and the number of compilations.
\<close>

theorem acquire_without_nodes:
  assumes "bvm_tex_cache st (tex_ptr tex) = None"
    and "\<not> use_nodes tex \<or> nodetree tex = None"
  shows "BVM_texture_cache_acquire gen tex st = (NULL, st)"
  using assms by (auto simp: BVM_texture_cache_acquire_def)

theorem acquire_without_nodes_witness:
  "BVM_texture_cache_acquire fresh texB empty_cache = (NULL, empty_cache)"
  using acquire_without_nodes [of empty_cache texB fresh]
  by (simp add: texB_def empty_cache_def)

subsection \<open>Concurrent callers of the cache\<close>

text \<open>
  A thread that runs alone from the start returns what \<open>BVM_texture_cache_acquire\<close>
  returns, leaves the cache state that it leaves, and has released the mutex.
\<close>

lemma alone_agrees:
  "\<exists>sched s. run_schedule gen tex sched (start st) = Some s
      \<and> pcs s t = Returned (fst (BVM_texture_cache_acquire gen tex st))
      \<and> shared s = snd (BVM_texture_cache_acquire gen tex st)
      \<and> bvm_tex_mutex s = None"
proof (cases "bvm_tex_cache st (tex_ptr tex)")
  case (Some e)
  then have "run_schedule gen tex [t, t, t] (start st)
      = Some \<lparr>bvm_tex_mutex = None, shared = st, pcs = (\<lambda>u. AtLock)(t := Returned e)\<rparr>"
    by (simp add: step_def start_def)
  with Some show ?thesis
    by (intro exI [of _ "[t, t, t]"]) (simp add: BVM_texture_cache_acquire_def)
next
  case None
  show ?thesis
  proof (cases "use_nodes tex \<and> nodetree tex \<noteq> None")
    case True
    with None have "run_schedule gen tex [t, t, t, t, t] (start st)
      = Some \<lparr>bvm_tex_mutex = None,
              shared = \<lparr>bvm_tex_cache = (bvm_tex_cache st)(tex_ptr tex \<mapsto> gen (compilations st) tex),
                        compilations = compilations st + 1\<rparr>,
              pcs = (\<lambda>u. AtLock)(t := Returned (gen (compilations st) tex))\<rparr>"
      by (auto simp: step_def start_def Let_def)
    with None True show ?thesis
      by (intro exI [of _ "[t, t, t, t, t]"]) (auto simp: BVM_texture_cache_acquire_def Let_def)
  next
    case False
    with None have "run_schedule gen tex [t, t, t] (start st)
      = Some \<lparr>bvm_tex_mutex = None, shared = st, pcs = (\<lambda>u. AtLock)(t := Returned NULL)\<rparr>"
      by (auto simp: step_def start_def)
    with None False show ?thesis
      by (intro exI [of _ "[t, t, t]"]) (auto simp: BVM_texture_cache_acquire_def)
  qed
qed

lemma serialized_start:
  "bvm_tex_cache st key = None \<Longrightarrow> serialized key (compilations st) (start st)"
  by (simp add: serialized_def start_def)

lemma serialized_owner:
  "serialized key c0 s \<Longrightarrow> in_scope (pcs s t) \<Longrightarrow> bvm_tex_mutex s = Some t"
  by (simp add: serialized_def)

lemma serialized_unique:
  assumes "serialized key c0 s" and "in_scope (pcs s t)" and "in_scope (pcs s u)"
  shows "u = t"
  using assms serialized_owner [of key c0 s t] serialized_owner [of key c0 s u] by simp

lemma outside_scope: "\<not> in_scope p \<Longrightarrow> p \<noteq> AtGen \<and> p \<noteq> AtStore e"
  by (cases p) auto

lemma serialized_others:
  assumes "serialized key c0 s" and "in_scope (pcs s t)"
  shows "\<forall>u. u \<noteq> t \<longrightarrow> pcs s u \<noteq> AtGen \<and> (\<forall>e. pcs s u \<noteq> AtStore e)"
  using serialized_unique [OF assms] outside_scope by blast

text \<open>Every step of every thread keeps the invariant.\<close>

lemma serialized_step:
  assumes inv: "serialized (tex_ptr tex) c0 s" and st: "step gen tex t s = Some s'"
  shows "serialized (tex_ptr tex) c0 s'"
proof (cases "pcs s t")
  case AtLock
  with st obtain free: "bvm_tex_mutex s = None"
    and s': "s' = s\<lparr>bvm_tex_mutex := Some t, pcs := (pcs s)(t := AtFind)\<rparr>"
    by (auto simp: step_def split: option.splits)
  have none: "\<forall>u. \<not> in_scope (pcs s u)"
    using serialized_owner [OF inv] free by auto
  then have "\<forall>u. pcs s u \<noteq> AtGen \<and> (\<forall>e. pcs s u \<noteq> AtStore e)"
    using outside_scope by blast
  with inv none show ?thesis
    unfolding s' serialized_def by auto
next
  case AtFind
  then have "\<forall>u. u \<noteq> t \<longrightarrow> pcs s u \<noteq> AtGen \<and> (\<forall>e. pcs s u \<noteq> AtStore e)"
    using serialized_others [OF inv, of t] by simp
  then have quiet: "\<forall>u. pcs s u \<noteq> AtGen \<and> (\<forall>e. pcs s u \<noteq> AtStore e)"
    using AtFind by (intro allI, case_tac "u = t") auto
  from AtFind st inv quiet show ?thesis
    unfolding serialized_def step_def
    by (auto split: option.splits if_splits)
next
  case AtGen
  then have "\<forall>u. u \<noteq> t \<longrightarrow> pcs s u \<noteq> AtGen \<and> (\<forall>e. pcs s u \<noteq> AtStore e)"
    using serialized_others [OF inv, of t] by simp
  then have quiet: "\<forall>u e. pcs s u \<noteq> AtStore e"
    using AtGen by (intro allI, case_tac "u = t") auto
  have own: "bvm_tex_mutex s = Some t"
    using serialized_owner [OF inv, of t] AtGen by simp
  from AtGen st inv quiet own show ?thesis
    unfolding serialized_def step_def
    by (auto simp: Let_def split: if_splits)
next
  case (AtStore e)
  then have "\<forall>u. u \<noteq> t \<longrightarrow> pcs s u \<noteq> AtGen \<and> (\<forall>e. pcs s u \<noteq> AtStore e)"
    using serialized_others [OF inv, of t] by simp
  then have quiet: "\<forall>u. pcs s u \<noteq> AtGen"
    using AtStore by (intro allI, case_tac "u = t") auto
  have own: "bvm_tex_mutex s = Some t"
    using serialized_owner [OF inv, of t] AtStore by simp
  from AtStore st inv quiet own show ?thesis
    unfolding serialized_def step_def
    by (auto split: if_splits)
next
  case (AtLeave r)
  then have own: "in_scope (pcs s t)" by simp
  have alone: "\<forall>u. u \<noteq> t \<longrightarrow> \<not> in_scope (pcs s u)"
    using serialized_unique [OF inv own] by blast
  then have "\<forall>u. u \<noteq> t \<longrightarrow> pcs s u \<noteq> AtGen \<and> (\<forall>e. pcs s u \<noteq> AtStore e)"
    using outside_scope by blast
  then have quiet: "\<forall>u. pcs s u \<noteq> AtGen \<and> (\<forall>e. pcs s u \<noteq> AtStore e)"
    using AtLeave by (intro allI, case_tac "u = t") auto
  from AtLeave st inv quiet alone show ?thesis
    unfolding serialized_def step_def
    by (auto split: if_splits)
next
  case (Returned r)
  with st show ?thesis by (simp add: step_def)
qed

lemma serialized_run:
  "serialized (tex_ptr tex) c0 s \<Longrightarrow> run_schedule gen tex sched s = Some s' \<Longrightarrow>
     serialized (tex_ptr tex) c0 s'"
proof (induction sched arbitrary: s)
  case Nil
  then show ?case by simp
next
  case (Cons t ts)
  then show ?case
    by (auto split: option.splits dest: serialized_step)
qed

lemma serialized_bound: "serialized key c0 s \<Longrightarrow> compilations (shared s) \<le> c0 + 1"
  by (simp add: serialized_def)

text \<open>
  C5, as the code has it. Acquire takes the cache mutex on entry and holds it until it
  returns: around the lookup, the generation of the expression and the insertion. Whatever
  the schedule of the threads that acquire one new key, a thread anywhere between taking
  the lock and leaving the function owns the mutex, and at most one expression is
  generated.
\<close>

theorem acquire_holds_mutex_throughout:
  assumes "bvm_tex_cache st (tex_ptr tex) = None"
    and "run_schedule gen tex sched (start st) = Some s"
  shows "(\<forall>t. in_scope (pcs s t) \<longrightarrow> bvm_tex_mutex s = Some t)
           \<and> compilations (shared s) \<le> compilations st + 1"
proof -
  have "serialized (tex_ptr tex) (compilations st) s"
    using serialized_run [OF serialized_start [OF assms(1)] assms(2)] .
  then show ?thesis
    using serialized_owner serialized_bound by blast
qed


theorem acquire_holds_mutex_throughout_witness:
  "run_schedule fresh texA [0, 0, 0] (start empty_cache)
     = Some \<lparr>bvm_tex_mutex = Some 0,
             shared = \<lparr>bvm_tex_cache = Map.empty, compilations = 1\<rparr>,
             pcs = (\<lambda>t. AtLock)(0 := AtStore (Expression 0))\<rparr>
   \<and> run_schedule fresh texA [0, 0, 0, 1] (start empty_cache) = None
   \<and> map_option (\<lambda>s. (pcs s 0, pcs s 1, compilations (shared s)))
       (run_schedule fresh texA [0, 0, 0, 0, 0, 1, 1, 1] (start empty_cache))
     = Some (Returned (Expression 0), Returned (Expression 0), 1)"
proof -
  have absent: "bvm_tex_cache empty_cache (tex_ptr texA) = None"
    by (simp add: empty_cache_def)
  have run: "run_schedule fresh texA [0, 0, 0] (start empty_cache)
     = Some \<lparr>bvm_tex_mutex = Some 0,
             shared = \<lparr>bvm_tex_cache = Map.empty, compilations = 1\<rparr>,
             pcs = (\<lambda>t. AtLock)(0 := AtStore (Expression 0))\<rparr>"
    by (simp add: step_def start_def texA_def empty_cache_def fresh_def)
  have more: "run_schedule fresh texA [0, 0, 0, 1] (start empty_cache) = None"
    by (simp add: step_def start_def texA_def empty_cache_def fresh_def)
  have all: "map_option (\<lambda>s. (pcs s 0, pcs s 1, compilations (shared s)))
       (run_schedule fresh texA [0, 0, 0, 0, 0, 1, 1, 1] (start empty_cache))
     = Some (Returned (Expression 0), Returned (Expression 0), 1)"
    by (simp add: step_def start_def texA_def empty_cache_def fresh_def)
  from acquire_holds_mutex_throughout [OF absent run] run more all show ?thesis by simp
qed

text \<open>
  The claim as written has the mutex released during the generation, so that two callers
  of one new key can both generate. On the code, with two threads and the texture
  \<open>texA\<close>: after thread 0 has taken the lock and missed the key, it is about to
  generate and owns the mutex; thread 1 cannot take a step; and no schedule at all leads
  to two generated expressions.
\<close>

theorem acquire_lock_counterexample:
  "run_schedule fresh texA [0, 0] (start empty_cache)
     = Some \<lparr>bvm_tex_mutex = Some 0, shared = empty_cache, pcs = (\<lambda>t. AtLock)(0 := AtGen)\<rparr>
   \<and> step fresh texA 1 \<lparr>bvm_tex_mutex = Some 0, shared = empty_cache, pcs = (\<lambda>t. AtLock)(0 := AtGen)\<rparr> = None
   \<and> \<not> (\<exists>sched s. run_schedule fresh texA sched (start empty_cache) = Some s
                    \<and> 2 \<le> compilations (shared s))"
proof (intro conjI)
  show "run_schedule fresh texA [0, 0] (start empty_cache)
     = Some \<lparr>bvm_tex_mutex = Some 0, shared = empty_cache, pcs = (\<lambda>t. AtLock)(0 := AtGen)\<rparr>"
    by (simp add: step_def start_def texA_def empty_cache_def fresh_def)
  show "step fresh texA 1 \<lparr>bvm_tex_mutex = Some 0, shared = empty_cache, pcs = (\<lambda>t. AtLock)(0 := AtGen)\<rparr> = None"
    by (simp add: step_def)
  show "\<not> (\<exists>sched s. run_schedule fresh texA sched (start empty_cache) = Some s
                    \<and> 2 \<le> compilations (shared s))"
  proof
    assume "\<exists>sched s. run_schedule fresh texA sched (start empty_cache) = Some s
                    \<and> 2 \<le> compilations (shared s)"
    then obtain sched s where r: "run_schedule fresh texA sched (start empty_cache) = Some s"
      and c: "2 \<le> compilations (shared s)" by blast
    have "serialized (tex_ptr texA) (compilations empty_cache) (start empty_cache)"
      by (rule serialized_start) (simp add: empty_cache_def)
    from serialized_bound [OF serialized_run [OF this r]] c show False
      by (simp add: empty_cache_def)
  qed
qed

subsection \<open>Floats\<close>

lemmas float_defs = fmul_def fadd_def fdiv_def fsqrt_def round_float_def round_at_def round_half_even_def
  nearest_even_def float_pack_def round_sum_def sqrt_round_def sqrt_at_def sqrt_finite_def
  magnitude_def signed_magnitude_def float_exponent_def float_fraction_def float_sign_def
  is_nan_def is_zero_def is_infinity_def float_NaN_def float_infinity_def float_zero_def sqrt_floor_def
  float_key_def float_gt_def float_ne_def float_of_ratio_def

text \<open>
  Some values of the arithmetic: \<open>1 / 3\<close>, the square root of 2, an overflow, the
  smallest subnormal halved (a tie, rounded to even), and two sums.
\<close>

lemma float_arithmetic_examples:
  "fdiv 0x3F800000 0x40400000 = 0x3EAAAAAB"
  "fsqrt 0x40000000 = 0x3FB504F3"
  "fmul 0x7F7FFFFF 0x40000000 = 0x7F800000"
  "fmul 0x00000001 0x3F000000 = 0"
  "fadd 0x3F800000 0x33800000 = 0x3F800000"
  "fadd 0x3F800000 0xBF800000 = 0"
  by (simp_all add: float_defs)

text \<open>A float is a zero exactly when all its bits below the sign are clear.\<close>

lemma is_zero_iff: "is_zero w \<longleftrightarrow> unat w mod 2 ^ 31 = 0"
proof -
  have "unat w mod (2 ^ 23 * 2 ^ 8) = 2 ^ 23 * ((unat w div 2 ^ 23) mod 2 ^ 8) + unat w mod 2 ^ 23"
    by (rule mod_mult2_eq)
  then show ?thesis
    by (auto simp: is_zero_def float_exponent_def float_fraction_def)
qed

lemma zero_not_nan: "is_zero w \<Longrightarrow> \<not> is_nan w"
  by (simp add: is_zero_def is_nan_def)

lemma float_key_zero: "is_zero w \<longleftrightarrow> float_key w = 0"
  by (simp add: is_zero_iff float_key_def)

lemma float_ne_zero: "float_ne b 0 \<longleftrightarrow> \<not> is_zero b"
proof -
  have z: "is_zero (0 :: float)" by (simp add: is_zero_def float_exponent_def float_fraction_def)
  show ?thesis
    using z zero_not_nan [of b] zero_not_nan [of 0]
    by (auto simp: float_ne_def float_key_zero)
qed

lemma float_gt_zero: "float_gt l 0 \<Longrightarrow> \<not> is_zero l"
proof -
  have z: "is_zero (0 :: float)" by (simp add: is_zero_def float_exponent_def float_fraction_def)
  then have "float_key (0 :: float) = 0" by (simp add: float_key_zero)
  then show "float_gt l 0 \<Longrightarrow> \<not> is_zero l"
    by (auto simp: float_gt_def float_key_zero)
qed

lemma zero_cases: "is_zero w \<Longrightarrow> w = 0 \<or> w = 0x80000000"
proof -
  assume "is_zero w"
  then have m: "unat w mod 2147483648 = 0" by (simp add: is_zero_iff)
  have lt: "unat w < 4294967296" using unsigned_less [of w] by simp
  from m obtain q where q: "unat w = 2147483648 * q" by (auto simp: mod_eq_0_iff_dvd elim: dvdE)
  with lt have "q = 0 \<or> q = 1" by linarith
  with q have "unat w = 0 \<or> unat w = 2147483648" by auto
  then have "unat w = unat (0 :: float) \<or> unat w = unat (0x80000000 :: float)"
    by simp
  then show ?thesis
    by (simp add: word_unat_eq_iff)
qed

lemma fmul_zero_zero:
  assumes "is_zero a"
  shows "fmul a a = 0"
proof -
  have "fmul 0 0 = 0" and "fmul 0x80000000 0x80000000 = 0"
    by (simp_all add: float_defs)
  with zero_cases [OF assms] show ?thesis by auto
qed

lemma fmul_zero_right:
  assumes "is_zero a"
  shows "fmul a 0 = a"
proof -
  have "fmul 0 0 = 0" and "fmul 0x80000000 0 = 0x80000000"
    by (simp_all add: float_defs)
  with zero_cases [OF assms] show ?thesis by auto
qed

lemma fadd_zero_zero: "fadd 0 0 = 0"
  by (simp add: float_defs)

lemma fsqrt_zero: "fsqrt 0 = 0"
  by (simp add: float_defs)

lemma not_gt_zero: "\<not> float_gt 0 0"
  by (simp add: float_gt_def)

text \<open>
  The constants of the normalize scenario as bit patterns, and the arithmetic on them.
\<close>

lemma decimal_bits:
  "float_of_ratio 3 1 = 0x40400000"
  "float_of_ratio 4 1 = 0x40800000"
  "float_of_ratio 0 1 = 0"
  "float_of_ratio 5 1 = 0x40A00000"
  "float_of_ratio 6 10 = 0x3F19999A"
  "float_of_ratio 8 10 = 0x3F4CCCCD"
  by (simp_all add: float_defs)

lemma normalize_arithmetic:
  "fmul 0x40400000 0x40400000 = 0x41100000"
  "fmul 0x40800000 0x40800000 = 0x41800000"
  "fmul 0 0 = 0"
  "fadd 0x41100000 0x41800000 = 0x41C80000"
  "fadd 0x41C80000 0 = 0x41C80000"
  "fsqrt 0x41C80000 = 0x40A00000"
  "float_gt 0x40A00000 0"
  "fdiv 0x3F800000 0x40A00000 = 0x3E4CCCCD"
  "fmul 0x40400000 0x3E4CCCCD = 0x3F19999A"
  "fmul 0x40800000 0x3E4CCCCD = 0x3F4CCCCD"
  "fmul 0 0x3E4CCCCD = 0"
  by (simp_all add: float_defs)

subsection \<open>Elementary operations\<close>

text \<open>
  C3. When the divisor read from the stack is zero (either zero), \<^verbatim>\<open>DIV_FLOAT\<close> stores
  the float \<open>0.0\<close> into the result slot, whatever the dividend. The operation is a total
  function to stacks: it has no error result. The inputs \<open>(1.0, 0.0)\<close> are the witness.
\<close>

theorem div_float_by_zero:
  assumes "is_zero (stack_load_float S stack offset_b)"
  shows "eval_op_div_float S stack offset_a offset_b offset_r = stack_store_float S stack offset_r 0"
  using assms by (simp add: eval_op_div_float_def div_safe_def float_ne_zero)

theorem div_float_by_zero_witness:
  "eval_op_div_float cells ((\<lambda>i. 0x7FC00000)(0 := 0x3F800000, 1 := 0)) 0 1 2
     = (\<lambda>i. 0x7FC00000)(0 := 0x3F800000, 1 := 0, 2 := 0)"
proof -
  have "is_zero (stack_load_float cells ((\<lambda>i. 0x7FC00000)(0 := 0x3F800000, 1 := 0)) 1)"
    by (simp add: cells_def is_zero_def float_exponent_def float_fraction_def)
  from div_float_by_zero [OF this, of 0 2] show ?thesis
    by (simp add: cells_def)
qed

text \<open>
  C10. When the divisor read from the stack is zero, \<^verbatim>\<open>MODULO\<close> stores exactly
  \<open>0.0\<close> into the result slot, for every dividend, and calls \<^verbatim>\<open>fmodf\<close> not at all;
  on every input, the divisor of every call of \<^verbatim>\<open>fmodf\<close> is nonzero.
\<close>

theorem modulo_by_zero:
  "(is_zero (stack_load_float S stack offset_b) \<longrightarrow>
      eval_op_modulo S fmodf stack offset_a offset_b offset_r = (stack_store_float S stack offset_r 0, []))
   \<and> (\<forall>(a, b) \<in> set (snd (eval_op_modulo S fmodf stack offset_a offset_b offset_r)). \<not> is_zero b)"
  by (auto simp: eval_op_modulo_def float_ne_zero Let_def)

theorem modulo_by_zero_witness:
  "eval_op_modulo cells (\<lambda>a b. 0x7FC00000) ((\<lambda>i. 0x7FC00000)(0 := 0x40A00000, 1 := 0x80000000)) 0 1 2
     = ((\<lambda>i. 0x7FC00000)(0 := 0x40A00000, 1 := 0x80000000, 2 := 0), [])
   \<and> snd (eval_op_modulo cells (\<lambda>a b. 0x3F800000) ((\<lambda>i. 0x7FC00000)(0 := 0x40A00000, 1 := 0x40000000)) 0 1 2)
     = [(0x40A00000, 0x40000000)]
   \<and> \<not> is_zero (0x40000000 :: float)"
proof -
  have "is_zero (stack_load_float cells ((\<lambda>i. 0x7FC00000)(0 := 0x40A00000, 1 := 0x80000000)) 1)"
    by (simp add: cells_def is_zero_def float_exponent_def float_fraction_def)
  with modulo_by_zero [of cells "(\<lambda>i. 0x7FC00000)(0 := 0x40A00000, 1 := 0x80000000)" 1 "\<lambda>a b. 0x7FC00000" 0 2]
  have zero: "eval_op_modulo cells (\<lambda>a b. 0x7FC00000) ((\<lambda>i. 0x7FC00000)(0 := 0x40A00000, 1 := 0x80000000)) 0 1 2
     = ((\<lambda>i. 0x7FC00000)(0 := 0x40A00000, 1 := 0x80000000, 2 := 0), [])"
    by (simp add: cells_def)
  have calls: "snd (eval_op_modulo cells (\<lambda>a b. 0x3F800000) ((\<lambda>i. 0x7FC00000)(0 := 0x40A00000, 1 := 0x40000000)) 0 1 2)
     = [(0x40A00000, 0x40000000)]"
    by (simp add: eval_op_modulo_def cells_def float_ne_zero is_zero_def float_exponent_def float_fraction_def)
  with modulo_by_zero [of cells "(\<lambda>i. 0x7FC00000)(0 := 0x40A00000, 1 := 0x40000000)" 1 "\<lambda>a b. 0x3F800000" 0 2]
  have "\<not> is_zero (0x40000000 :: float)"
    by simp
  with zero calls show ?thesis by simp
qed

text \<open>
  C8. On the input vector \<open>(3, 4, 0)\<close>, normalize stores the vector
  \<open>(0.6, 0.8, 0)\<close> and the length \<open>5.0\<close>, each decimal constant read as the float
  nearest to it.
\<close>

theorem normalize_3_4_0:
  assumes "stack_load_float3 S stack offset = Float3 (float_of_ratio 3 1) (float_of_ratio 4 1) (float_of_ratio 0 1)"
  shows "fst (eval_op_normalize_float3 S stack offset offset_vec offset_val)
           = stack_store_float S
               (stack_store_float3 S stack offset_vec
                  (Float3 (float_of_ratio 6 10) (float_of_ratio 8 10) (float_of_ratio 0 1)))
               offset_val (float_of_ratio 5 1)"
  using assms unfolding decimal_bits
  by (simp add: eval_op_normalize_float3_def normalize_arithmetic)

theorem normalize_3_4_0_witness:
  "fst (eval_op_normalize_float3 cells ((\<lambda>i. 0x7FC00000)(0 := 0x40400000, 1 := 0x40800000, 2 := 0)) 0 3 6)
     = (\<lambda>i. 0x7FC00000)(0 := 0x40400000, 1 := 0x40800000, 2 := 0,
          3 := 0x3F19999A, 4 := 0x3F4CCCCD, 5 := 0, 6 := 0x40A00000)"
proof -
  have "stack_load_float3 cells ((\<lambda>i. 0x7FC00000)(0 := 0x40400000, 1 := 0x40800000, 2 := 0)) 0
          = Float3 (float_of_ratio 3 1) (float_of_ratio 4 1) (float_of_ratio 0 1)"
    unfolding decimal_bits by (simp add: cells_def)
  from normalize_3_4_0 [OF this, of 3 6] show ?thesis
    unfolding decimal_bits by (simp add: cells_def)
qed

text \<open>
  C9. On an input vector whose three components are zeros, normalize stores that zero
  vector as the normalized vector and \<open>0.0\<close> as the length, and divides nothing. On
  every input vector, the divisor of every division that normalize makes is greater than
  zero, hence not zero.
\<close>

theorem normalize_guarded:
  "(stack_load_float3 S stack offset = Float3 a b c \<and> is_zero a \<and> is_zero b \<and> is_zero c \<longrightarrow>
      eval_op_normalize_float3 S stack offset offset_vec offset_val
        = (stack_store_float S (stack_store_float3 S stack offset_vec (Float3 a b c)) offset_val 0, []))
   \<and> (\<forall>(n, d) \<in> set (snd (eval_op_normalize_float3 S stack offset offset_vec offset_val)).
         float_gt d 0 \<and> \<not> is_zero d)"
proof (intro conjI impI)
  assume h: "stack_load_float3 S stack offset = Float3 a b c \<and> is_zero a \<and> is_zero b \<and> is_zero c"
  then show "eval_op_normalize_float3 S stack offset offset_vec offset_val
        = (stack_store_float S (stack_store_float3 S stack offset_vec (Float3 a b c)) offset_val 0, [])"
    by (simp add: eval_op_normalize_float3_def fmul_zero_zero fmul_zero_right fadd_zero_zero fsqrt_zero
          not_gt_zero)
next
  show "\<forall>(n, d) \<in> set (snd (eval_op_normalize_float3 S stack offset offset_vec offset_val)).
         float_gt d 0 \<and> \<not> is_zero d"
    by (auto simp: eval_op_normalize_float3_def Let_def float_gt_zero split: if_splits)
qed

theorem normalize_guarded_witness:
  "eval_op_normalize_float3 cells ((\<lambda>i. 0x7FC00000)(0 := 0, 1 := 0x80000000, 2 := 0)) 0 3 6
     = ((\<lambda>i. 0x7FC00000)(0 := 0, 1 := 0x80000000, 2 := 0, 3 := 0, 4 := 0x80000000, 5 := 0, 6 := 0), [])
   \<and> snd (eval_op_normalize_float3 cells ((\<lambda>i. 0x7FC00000)(0 := 0x40400000, 1 := 0x40800000, 2 := 0)) 0 3 6)
     = [(0x3F800000, 0x40A00000)]
   \<and> float_gt 0x40A00000 0 \<and> \<not> is_zero (0x40A00000 :: float)"
proof -
  have "stack_load_float3 cells ((\<lambda>i. 0x7FC00000)(0 := 0, 1 := 0x80000000, 2 := 0)) 0
          = Float3 0 0x80000000 0 \<and> is_zero (0 :: float) \<and> is_zero (0x80000000 :: float) \<and> is_zero (0 :: float)"
    by (simp add: cells_def is_zero_def float_exponent_def float_fraction_def)
  with normalize_guarded [of cells "(\<lambda>i. 0x7FC00000)(0 := 0, 1 := 0x80000000, 2 := 0)" 0 0 "0x80000000" 0 3 6]
  have zero: "eval_op_normalize_float3 cells ((\<lambda>i. 0x7FC00000)(0 := 0, 1 := 0x80000000, 2 := 0)) 0 3 6
     = ((\<lambda>i. 0x7FC00000)(0 := 0, 1 := 0x80000000, 2 := 0, 3 := 0, 4 := 0x80000000, 5 := 0, 6 := 0), [])"
    by (simp add: cells_def)
  have divisions: "snd (eval_op_normalize_float3 cells ((\<lambda>i. 0x7FC00000)(0 := 0x40400000, 1 := 0x40800000, 2 := 0)) 0 3 6)
     = [(0x3F800000, 0x40A00000)]"
    by (simp add: eval_op_normalize_float3_def cells_def normalize_arithmetic)
  with normalize_guarded [of cells "(\<lambda>i. 0x7FC00000)(0 := 0x40400000, 1 := 0x40800000, 2 := 0)" 0 _ _ _ 3 6]
  have "float_gt 0x40A00000 0 \<and> \<not> is_zero (0x40A00000 :: float)"
    by simp
  with zero divisions show ?thesis by simp
qed

end
